theory Spec2Isabelle
  imports Complex_Main "HOL-Library.Word" "HOL-Library.Sublist" "HOL-Library.Log_Nat"
begin

section \<open>Python values used by \<open>remote_ssh.py\<close>\<close>

subsection \<open>Exceptions\<close>

text \<open>
  The handlers of \<open>remote_ssh.py\<close> select exceptions by class. The classes that matter are
  \<open>asyncssh.Error\<close> with its subclass \<open>asyncssh.SFTPError\<close>, \<open>asyncssh.TimeoutError\<close>
  (a subclass of both \<open>asyncssh.Error\<close> and \<open>asyncio.TimeoutError\<close>), \<open>FileNotFoundError\<close>
  (a subclass of \<open>OSError\<close>), \<open>asyncio.TimeoutError\<close> and \<open>ValueError\<close>; every other exception,
  such as an \<open>OSError\<close> of the network or an \<open>AttributeError\<close>, is caught by no handler of
  the module. An exception carries its class, the text that \<open>str(e)\<close> gives, and the
  exception it was raised \<open>from\<close>.
\<close>

datatype exn_class =
    SSH_Error
  | SFTP_Error
  | SSH_Timeout_Error
  | File_Not_Found_Error
  | OS_Error
  | Asyncio_Timeout_Error
  | Value_Error
  | Attribute_Error
  | Other_Exception

datatype exn = Exn (cls: exn_class) (message: string) (cause: "exn option")

definition is_asyncssh_Error :: "exn \<Rightarrow> bool" where
  "is_asyncssh_Error e = (cls e = SSH_Error \<or> cls e = SFTP_Error \<or> cls e = SSH_Timeout_Error)"

definition is_SFTPError :: "exn \<Rightarrow> bool" where
  "is_SFTPError e = (cls e = SFTP_Error)"

definition is_FileNotFoundError :: "exn \<Rightarrow> bool" where
  "is_FileNotFoundError e = (cls e = File_Not_Found_Error)"

definition is_asyncio_TimeoutError :: "exn \<Rightarrow> bool" where
  "is_asyncio_TimeoutError e = (cls e = Asyncio_Timeout_Error \<or> cls e = SSH_Timeout_Error)"

definition is_ValueError :: "exn \<Rightarrow> bool" where
  "is_ValueError e = (cls e = Value_Error)"

text \<open>The \<open>AttributeError\<close> of a call of a method that the object does not have.\<close>

definition attribute_error :: "string \<Rightarrow> string \<Rightarrow> exn" where
  "attribute_error class_name attribute =
     Exn Attribute_Error
       ([CHR 0x27] @ class_name @ [CHR 0x27] @ '' object has no attribute ''
        @ [CHR 0x27] @ attribute @ [CHR 0x27]) None"

subsection \<open>Formatting an integer: \<open>str(n)\<close> inside an f-string\<close>

definition digit_char :: "nat \<Rightarrow> char" where
  "digit_char d = ''0123456789'' ! d"

function str_nat :: "nat \<Rightarrow> string" where
  "str_nat n = (if n < 10 then [digit_char n] else str_nat (n div 10) @ [digit_char (n mod 10)])"
  by pat_completeness auto
termination
  by (relation "measure (\<lambda>n. n)") auto

declare str_nat.simps [simp del]

definition str_int :: "int \<Rightarrow> string" where
  "str_int i = (if i < 0 then CHR ''-'' # str_nat (nat (- i)) else str_nat (nat i))"

text \<open>\<open>f"{timeout}"\<close> where \<open>timeout\<close> is \<open>Optional[int]\<close>.\<close>

definition str_optional_int :: "int option \<Rightarrow> string" where
  "str_optional_int t = (case t of None \<Rightarrow> ''None'' | Some i \<Rightarrow> str_int i)"

subsection \<open>\<open>round(x)\<close> on a float: to the nearest integer, a tie to the even one\<close>

text \<open>
  Every finite float is a rational number, and \<open>round\<close> on a float is exact on its value.
\<close>

definition py_round :: "rat \<Rightarrow> int" where
  "py_round x =
     (let f = \<lfloor>x\<rfloor>; r = x - of_int f
      in if r < 1 / 2 then f
         else if 1 / 2 < r then f + 1
         else if even f then f else f + 1)"

subsection \<open>Subtraction of floats\<close>

text \<open>
  A Python \<open>float\<close> is an IEEE 754 double: zero, or \<open>\<plusminus> m * 2 ^ e\<close> with an integer
  \<open>m < 2 ^ 53\<close> and \<open>e \<ge> - 1074\<close>. The difference of two floats is the double nearest to
  their exact difference, a tie going to the even \<open>m\<close>. \<open>floor_log2 a\<close> is the \<open>k\<close> with
  \<open>2 ^ k \<le> a < 2 ^ (k + 1)\<close>, found from the bit lengths of the numerator and the
  denominator. The overflow of the format is left out: the readings of a clock are far from
  \<open>2 ^ 1024\<close>.
\<close>

definition floor_log2 :: "rat \<Rightarrow> int" where
  "floor_log2 a =
     (let (p, q) = quotient_of a; k = bitlen p - bitlen q
      in if 2 powi k \<le> a then k else k - 1)"

definition float_round :: "rat \<Rightarrow> rat" where
  "float_round x =
     (if x = 0 then 0
      else let e = max (floor_log2 \<bar>x\<bar> - 52) (- 1074)
           in sgn x * of_int (py_round (\<bar>x\<bar> / 2 powi e)) * 2 powi e)"

definition float_sub :: "rat \<Rightarrow> rat \<Rightarrow> rat" where
  "float_sub x y = float_round (x - y)"

subsection \<open>\<open>os.path.join(a, b)\<close> of \<open>posixpath\<close>\<close>

definition os_path_join :: "string \<Rightarrow> string \<Rightarrow> string" where
  "os_path_join a b =
     (if prefix ''/'' b then b
      else if a = [] \<or> suffix ''/'' a then a @ b
      else a @ ''/'' @ b)"

subsection \<open>\<open>bytes.decode('utf-8', errors='replace')\<close>\<close>

text \<open>
  A Python \<open>str\<close> is a sequence of code points, here a list of naturals. The decoder is
  CPython's: a well-formed sequence gives its code point; an invalid start byte, or a start
  byte with the valid continuation bytes that follow it up to the first invalid one, is
  replaced by one U+FFFD and decoding resumes at the byte after that part; a sequence cut off
  by the end of the input is replaced by one U+FFFD.
\<close>

definition is_cont :: "nat \<Rightarrow> bool" where
  "is_cont b = (0x80 \<le> b \<and> b < 0xC0)"

fun utf8_decode :: "nat list \<Rightarrow> nat list" where
  "utf8_decode [] = []"
| "utf8_decode (ch # s) =
    (if ch < 0x80 then ch # utf8_decode s
     else if ch < 0xE0 then
       (if ch < 0xC2 then 0xFFFD # utf8_decode s
        else (case s of
                [] \<Rightarrow> [0xFFFD]
              | ch2 # s2 \<Rightarrow>
                  if \<not> is_cont ch2 then 0xFFFD # utf8_decode s
                  else ((ch mod 32) * 64 + ch2 mod 64) # utf8_decode s2))
     else if ch < 0xF0 then
       (case s of
          [] \<Rightarrow> [0xFFFD]
        | ch2 # s2 \<Rightarrow>
            if \<not> is_cont ch2 \<or> (if ch2 < 0xA0 then ch = 0xE0 else ch = 0xED)
            then 0xFFFD # utf8_decode s
            else (case s2 of
                    [] \<Rightarrow> [0xFFFD]
                  | ch3 # s3 \<Rightarrow>
                      if \<not> is_cont ch3 then 0xFFFD # utf8_decode s2
                      else ((ch mod 16) * 4096 + (ch2 mod 64) * 64 + ch3 mod 64)
                           # utf8_decode s3))
     else if ch < 0xF5 then
       (case s of
          [] \<Rightarrow> [0xFFFD]
        | ch2 # s2 \<Rightarrow>
            if \<not> is_cont ch2 \<or> (if ch2 < 0x90 then ch = 0xF0 else ch = 0xF4)
            then 0xFFFD # utf8_decode s
            else (case s2 of
                    [] \<Rightarrow> [0xFFFD]
                  | ch3 # s3 \<Rightarrow>
                      if \<not> is_cont ch3 then 0xFFFD # utf8_decode s2
                      else (case s3 of
                              [] \<Rightarrow> [0xFFFD]
                            | ch4 # s4 \<Rightarrow>
                                if \<not> is_cont ch4 then 0xFFFD # utf8_decode s3
                                else ((ch mod 8) * 262144 + (ch2 mod 64) * 4096
                                      + (ch3 mod 64) * 64 + ch4 mod 64)
                                     # utf8_decode s4)))
     else 0xFFFD # utf8_decode s)"

definition decode_utf8_replace :: "8 word list \<Rightarrow> nat list" where
  "decode_utf8_replace bs = utf8_decode (map unat bs)"
text \<open>
  \<open>str.encode('utf-8')\<close> on one code point, and the code points it accepts (the Unicode
  scalar values): the reference against which the decoder is checked below.
\<close>

definition utf8_encode :: "nat \<Rightarrow> nat list" where
  "utf8_encode c =
     (if c < 0x80 then [c]
      else if c < 0x800 then [0xC0 + c div 64, 0x80 + c mod 64]
      else if c < 0x10000 then [0xE0 + c div 4096, 0x80 + (c div 64) mod 64, 0x80 + c mod 64]
      else [0xF0 + c div 262144, 0x80 + (c div 4096) mod 64, 0x80 + (c div 64) mod 64,
            0x80 + c mod 64])"

definition is_scalar_value :: "nat \<Rightarrow> bool" where
  "is_scalar_value c = (c < 0xD800 \<or> (0xE000 \<le> c \<and> c < 0x110000))"

section \<open>The external collaborators\<close>

text \<open>
  \<open>remote_ssh.py\<close> drives an SSH connection object of the \<open>asyncssh\<close> library. The
  library is not part of the module: each of its operations that the module calls is a field
  of a record, giving what the call returns or the exception it raises. A result
  \<open>exn + 'a\<close> is \<open>Inl e\<close> when \<open>e\<close> is raised and \<open>Inr v\<close> when \<open>v\<close> is returned; an
  outer \<open>option\<close> is \<open>None\<close> when the call never returns.
\<close>

subsection \<open>A remote process\<close>

text \<open>What \<open>read()\<close> on an output stream returns: \<open>bytes\<close> or \<open>str\<close>.\<close>

datatype stream = Bytes "8 word list" | Text "nat list"

text \<open>
  \<open>runtime\<close> is the time in seconds from the start of the wait until the process channel
  is closed, \<open>None\<close> when it never closes; \<open>wait_closed_raises\<close> is the exception that
  ends the wait, if any. \<open>exit_status_ready\<close> is \<open>None\<close> for an object that has no method
  of that name, and otherwise gives the answer to the \<open>k\<close>-th call of
  \<open>exit_status_ready()\<close>, counted from \<open>0\<close>. The process objects of asyncssh
  (\<open>SSHClientProcess\<close>) have no such method: it is a method of paramiko's channels.
\<close>

record process =
  runtime :: "rat option"
  wait_closed_raises :: "exn option"
  stdout_read :: "exn + stream"
  stderr_read :: "exn + stream"
  exit_status :: "int option"
  exit_status_ready :: "(nat \<Rightarrow> bool) option"

text \<open>\<open>await process.wait_closed()\<close>: the time waited, or the exception.\<close>

definition process_wait_closed :: "process \<Rightarrow> (exn + rat) option" where
  "process_wait_closed p =
     (case runtime p of
        None \<Rightarrow> None
      | Some d \<Rightarrow> (case wait_closed_raises p of
                     Some e \<Rightarrow> Some (Inl e)
                   | None \<Rightarrow> Some (Inr d)))"

text \<open>
  \<open>await asyncio.wait_for(process.wait_closed(), timeout)\<close>: the wait ends as
  \<open>wait_closed\<close> does when the channel closes before \<open>timeout\<close> seconds have passed, and
  with \<open>asyncio.TimeoutError\<close> otherwise. Where both fall on the same instant the model
  takes the timeout.
\<close>

definition asyncio_wait_for :: "process \<Rightarrow> int \<Rightarrow> (exn + rat) option" where
  "asyncio_wait_for p timeout =
     (case runtime p of
        None \<Rightarrow> Some (Inl (Exn Asyncio_Timeout_Error [] None))
      | Some d \<Rightarrow>
          if d < of_int timeout then process_wait_closed p
          else Some (Inl (Exn Asyncio_Timeout_Error [] None)))"

subsection \<open>An SFTP client\<close>

text \<open>
  \<open>put local remote\<close> and \<open>get remote local\<close> are the transfers; a successful
  \<open>get\<close> gives the set of paths that exist on the local file system afterwards, which is
  what \<open>os.path.exists\<close> then consults.
\<close>

record sftp_client =
  put :: "string \<Rightarrow> string \<Rightarrow> exn option"
  get :: "string \<Rightarrow> string \<Rightarrow> exn + string set"
  exists :: "string \<Rightarrow> exn + bool"
  listdir :: "string \<Rightarrow> exn + string list"

subsection \<open>A connection\<close>

datatype conn_state = Conn_Open | Conn_Closing | Conn_Closed

record ssh_client =
  conn_state :: conn_state
  start_sftp_client :: "exn + sftp_client"
  create_process :: "string \<Rightarrow> exn + process"

text \<open>
  \<open>close()\<close> starts the shutdown of an open connection and does nothing otherwise;
  \<open>wait_closed()\<close> returns once the shutdown has completed, and does not return on a
  connection that nobody closes. Neither raises.
\<close>

definition conn_close :: "ssh_client \<Rightarrow> exn + ssh_client" where
  "conn_close c = Inr (if conn_state c = Conn_Open then c\<lparr>conn_state := Conn_Closing\<rparr> else c)"

definition conn_wait_closed :: "ssh_client \<Rightarrow> (exn + ssh_client) option" where
  "conn_wait_closed c =
     (case conn_state c of
        Conn_Open \<Rightarrow> None
      | Conn_Closing \<Rightarrow> Some (Inr (c\<lparr>conn_state := Conn_Closed\<rparr>))
      | Conn_Closed \<Rightarrow> Some (Inr c))"

section \<open>The functions of \<open>remote_ssh.py\<close>\<close>

subsection \<open>\<open>connect_ssh\<close>\<close>

text \<open>
  \<open>asyncssh_connect\<close> stands for \<open>asyncssh.connect\<close>, called with the host, the port, the
  user name, the password and the keepalive interval (\<open>known_hosts\<close> is always \<open>None\<close>).
\<close>

definition connect_ssh ::
  "(string \<Rightarrow> int \<Rightarrow> string \<Rightarrow> string \<Rightarrow> int \<Rightarrow> exn + ssh_client)
   \<Rightarrow> string \<Rightarrow> int \<Rightarrow> string \<Rightarrow> string \<Rightarrow> int \<Rightarrow> exn + ssh_client" where
  "connect_ssh asyncssh_connect hostname port username password keepalive_interval =
     (case asyncssh_connect hostname port username password keepalive_interval of
        Inr client \<Rightarrow> Inr client
      | Inl e \<Rightarrow>
          if is_asyncssh_Error e
          then Inl (Exn Value_Error (''SSH connection error: '' @ message e) (Some e))
          else Inl e)"

subsection \<open>\<open>disconnect_ssh\<close>\<close>

text \<open>
  The argument is \<open>None\<close> or a connection; the result is the connection as the call leaves
  it.
\<close>

definition disconnect_ssh :: "ssh_client option \<Rightarrow> (exn + ssh_client option) option" where
  "disconnect_ssh client =
     (case client of
        None \<Rightarrow> Some (Inr None)
      | Some c \<Rightarrow>
          (case conn_close c of
             Inl e \<Rightarrow> Some (Inl e)
           | Inr c1 \<Rightarrow>
               (case conn_wait_closed c1 of
                  None \<Rightarrow> None
                | Some (Inl e) \<Rightarrow> Some (Inl e)
                | Some (Inr c2) \<Rightarrow> Some (Inr (Some c2)))))"

subsection \<open>\<open>upload_file\<close>\<close>

definition upload_file_try :: "ssh_client \<Rightarrow> string \<Rightarrow> string \<Rightarrow> string \<Rightarrow> exn + bool" where
  "upload_file_try client local_file_path remote_folder new_filename =
     (case start_sftp_client client of
        Inl e \<Rightarrow> Inl e
      | Inr sftp \<Rightarrow>
          (let remote_path = remote_folder @ ''/'' @ new_filename
           in case put sftp local_file_path remote_path of
                Some e \<Rightarrow> Inl e
              | None \<Rightarrow> Inr True))"

definition upload_file :: "ssh_client \<Rightarrow> string \<Rightarrow> string \<Rightarrow> string \<Rightarrow> exn + bool" where
  "upload_file client local_file_path remote_folder new_filename =
     (case upload_file_try client local_file_path remote_folder new_filename of
        Inr b \<Rightarrow> Inr b
      | Inl e \<Rightarrow>
          if is_FileNotFoundError e then Inr False
          else if is_SFTPError e then Inr False
          else Inl e)"

subsection \<open>\<open>download_file\<close>\<close>

definition download_file_try :: "ssh_client \<Rightarrow> string \<Rightarrow> string \<Rightarrow> string \<Rightarrow> exn + bool" where
  "download_file_try client remote_file_path local_folder new_filename =
     (case start_sftp_client client of
        Inl e \<Rightarrow> Inl e
      | Inr sftp \<Rightarrow>
          (let local_path = os_path_join local_folder new_filename
           in case get sftp remote_file_path local_path of
                Inl e \<Rightarrow> Inl e
              | Inr local_files \<Rightarrow> Inr (local_path \<in> local_files)))"

definition download_file :: "ssh_client \<Rightarrow> string \<Rightarrow> string \<Rightarrow> string \<Rightarrow> exn + bool" where
  "download_file client remote_file_path local_folder new_filename =
     (case download_file_try client remote_file_path local_folder new_filename of
        Inr b \<Rightarrow> Inr b
      | Inl e \<Rightarrow>
          if is_FileNotFoundError e
          then Inl (Exn File_Not_Found_Error
                      (''Remote file not found: '' @ remote_file_path) (Some e))
          else if is_SFTPError e
          then Inl (Exn Value_Error
                      (''SFTP error during file download: '' @ message e) (Some e))
          else Inl e)"

subsection \<open>\<open>execute_command\<close>\<close>

text \<open>
  The third component of the result is an \<open>int\<close> (the value of \<open>round\<close>) on the waiting
  branch and the float \<open>0.0\<close> on the other.
\<close>

datatype number = Int_Val int | Float_Val rat

type_synonym command_result = "nat list \<times> int option \<times> number"

text \<open>
  \<open>while not process.exit_status_ready(): await asyncio.sleep(check_interval)\<close>, from the
  \<open>k\<close>-th call of \<open>exit_status_ready()\<close> on. The loop need not end: the result is the
  number of the call that answered true, or \<open>None\<close>.
\<close>

partial_function (option) wait_until_ready :: "(nat \<Rightarrow> bool) \<Rightarrow> int \<Rightarrow> nat \<Rightarrow> nat option" where
  "wait_until_ready ready check_interval k =
     (if \<not> ready k then wait_until_ready ready check_interval (Suc k) else Some k)"

text \<open>
  The body of the \<open>try\<close> statement. \<open>time_time\<close> is the reading of \<open>time.time()\<close> when
  the wait starts; the reading after a wait of \<open>d\<close> seconds is \<open>time_time + d\<close>: the clock
  measures the wait and nothing else. The two readings are floats, and \<open>end_time -
  start_time\<close> is their float difference. On the other branch the call of
  \<open>exit_status_ready()\<close> raises \<open>AttributeError\<close> on an object without that method.
  Leaving the \<open>async with\<close> block closes the process channel, which changes no result and
  is left out, as is the logging.
\<close>

definition execute_command_try ::
  "ssh_client \<Rightarrow> string \<Rightarrow> bool \<Rightarrow> int \<Rightarrow> int option \<Rightarrow> rat \<Rightarrow> (exn + command_result) option" where
  "execute_command_try client command wait_for_response check_interval timeout time_time =
     (case create_process client command of
        Inl e \<Rightarrow> Some (Inl e)
      | Inr process \<Rightarrow>
          if wait_for_response then
            (let start_time = time_time
             in case (case timeout of
                        Some t \<Rightarrow> asyncio_wait_for process t
                      | None \<Rightarrow> process_wait_closed process) of
                  None \<Rightarrow> None
                | Some (Inl e) \<Rightarrow> Some (Inl e)
                | Some (Inr d) \<Rightarrow>
                    (let end_time = time_time + d
                     in case stdout_read process of
                          Inl e \<Rightarrow> Some (Inl e)
                        | Inr stdout \<Rightarrow>
                            (case stderr_read process of
                               Inl e \<Rightarrow> Some (Inl e)
                             | Inr stderr \<Rightarrow>
                                 (let execution_time = py_round (float_sub end_time start_time)
                                  in Some (Inr ((case stdout of
                                                   Bytes b \<Rightarrow> decode_utf8_replace b
                                                 | Text s \<Rightarrow> s),
                                                exit_status process,
                                                Int_Val execution_time))))))
          else
            (case exit_status_ready process of
               None \<Rightarrow> Some (Inl (attribute_error ''SSHClientProcess'' ''exit_status_ready''))
             | Some ready \<Rightarrow>
                 (case wait_until_ready ready check_interval 0 of
                    None \<Rightarrow> None
                  | Some k \<Rightarrow> Some (Inr ([], exit_status process, Float_Val 0)))))"

text \<open>The two handlers, in the order of the source.\<close>

definition execute_command ::
  "ssh_client \<Rightarrow> string \<Rightarrow> bool \<Rightarrow> int \<Rightarrow> int option \<Rightarrow> rat \<Rightarrow> (exn + command_result) option" where
  "execute_command client command wait_for_response check_interval timeout time_time =
     (case execute_command_try client command wait_for_response check_interval timeout time_time of
        None \<Rightarrow> None
      | Some (Inr r) \<Rightarrow> Some (Inr r)
      | Some (Inl e) \<Rightarrow>
          if is_asyncssh_Error e
          then Some (Inl (Exn Value_Error
                            (''SSH error during command execution: '' @ message e) (Some e)))
          else if is_asyncio_TimeoutError e
          then Some (Inl (Exn Asyncio_Timeout_Error
                            (''Command execution timed out after '' @ str_optional_int timeout
                             @ '' seconds.'') (Some e)))
          else Some (Inl e))"

subsection \<open>\<open>check_remote_file\<close>\<close>

definition check_remote_file_try :: "ssh_client \<Rightarrow> string \<Rightarrow> exn + bool" where
  "check_remote_file_try client remote_file_path =
     (case start_sftp_client client of
        Inl e \<Rightarrow> Inl e
      | Inr sftp \<Rightarrow> exists sftp remote_file_path)"

definition check_remote_file :: "ssh_client \<Rightarrow> string \<Rightarrow> exn + bool" where
  "check_remote_file client remote_file_path =
     (case check_remote_file_try client remote_file_path of
        Inr b \<Rightarrow> Inr b
      | Inl e \<Rightarrow> if is_SFTPError e then Inr False else Inl e)"

subsection \<open>\<open>find_file\<close>\<close>

text \<open>The \<open>for\<close> loop over the listing; \<open>startswith\<close> is \<open>prefix\<close>.\<close>

fun first_startswith :: "string \<Rightarrow> string list \<Rightarrow> string option" where
  "first_startswith pre [] = None"
| "first_startswith pre (filename # file_list) =
     (if prefix pre filename then Some filename else first_startswith pre file_list)"

definition find_file_try :: "ssh_client \<Rightarrow> string \<Rightarrow> string \<Rightarrow> exn + string option" where
  "find_file_try client remote_directory pre =
     (case start_sftp_client client of
        Inl e \<Rightarrow> Inl e
      | Inr sftp \<Rightarrow>
          (case listdir sftp remote_directory of
             Inl e \<Rightarrow> Inl e
           | Inr file_list \<Rightarrow> Inr (first_startswith pre file_list)))"

definition find_file :: "ssh_client \<Rightarrow> string \<Rightarrow> string \<Rightarrow> exn + string option" where
  "find_file client remote_directory pre =
     (case find_file_try client remote_directory pre of
        Inr r \<Rightarrow> Inr r
      | Inl e \<Rightarrow> if is_SFTPError e then Inr None else Inl e)"

section \<open>A sample session\<close>

text \<open>
  A process of asyncssh (it has no \<open>exit_status_ready\<close>) that runs for two and a half
  seconds, writes the bytes \<open>68 69 FF\<close> to standard output and ends with status \<open>3\<close>; an
  SFTP client; and a connection that gives them. On the connection the command \<open>false\<close>
  cannot be dispatched, \<open>lost\<close> loses the connection while its end is awaited, \<open>reset\<close>
  has the connection reset under the read of its output, \<open>sleep\<close> never ends, and
  \<open>long\<close> and \<open>aeon\<close> run for the time between the clock readings used below.
  The SFTP client reports a remote path that does not exist as asyncssh does, by the
  \<open>SFTPError\<close> \<open>No matches found\<close> (\<open>SFTPNoSuchFile\<close>), and a local folder that does not
  exist by \<open>FileNotFoundError\<close>.
\<close>

definition demo_process :: process where
  "demo_process =
     \<lparr>runtime = Some (5 / 2), wait_closed_raises = None,
      stdout_read = Inr (Bytes [0x68, 0x69, 0xFF]), stderr_read = Inr (Text [0x77]),
      exit_status = Some 3, exit_status_ready = None\<rparr>"

definition demo_sftp :: sftp_client where
  "demo_sftp =
     \<lparr>put = (\<lambda>local remote.
               if local = ''missing.txt'' then Some (Exn File_Not_Found_Error ''missing.txt'' None)
               else if remote = ''/srv//a.txt'' then None
               else Some (Exn SFTP_Error ''Permission denied'' None)),
      get = (\<lambda>remote local.
               if remote = ''/srv/a.txt''
               then (if prefix ''/nodir/'' local
                     then Inl (Exn File_Not_Found_Error ''No such file or directory'' None)
                     else Inr {local})
               else if remote = ''/srv/ghost'' then Inr {}
               else if remote = ''/srv/denied'' then Inl (Exn SFTP_Error ''Permission denied'' None)
               else Inl (Exn SFTP_Error ''No matches found'' None)),
      exists = (\<lambda>remote.
               if remote = ''/srv/a.txt'' then Inr True
               else Inl (Exn SFTP_Error ''No such file'' None)),
      listdir = (\<lambda>remote.
               if remote = ''/srv'' then Inr [''abd.txt'', ''abc.txt'', ''xyz.txt'']
               else Inl (Exn SFTP_Error ''No such file'' None))\<rparr>"

definition demo_client :: ssh_client where
  "demo_client =
     \<lparr>conn_state = Conn_Open, start_sftp_client = Inr demo_sftp,
      create_process = (\<lambda>command.
        if command = ''false'' then Inl (Exn SSH_Error ''Channel open failed'' None)
        else if command = ''lost''
        then Inr (demo_process\<lparr>wait_closed_raises := Some (Exn SSH_Error ''Connection lost'' None)\<rparr>)
        else if command = ''reset''
        then Inr (demo_process\<lparr>stdout_read := Inl (Exn OS_Error ''Connection reset by peer'' None)\<rparr>)
        else if command = ''sleep''
        then Inr (demo_process\<lparr>runtime := None\<rparr>)
        else if command = ''long''
        then Inr (demo_process\<lparr>runtime := Some (20995781462801251533 / 18014398509481984)\<rparr>)
        else if command = ''aeon''
        then Inr (demo_process\<lparr>runtime := Some (36028797018963973 / 2)\<rparr>)
        else Inr demo_process)\<rparr>"

text \<open>
  The same connection after it was closed: no SFTP session can be opened on it, which
  asyncssh reports by \<open>ChannelOpenError\<close>, an \<open>asyncssh.Error\<close> that is no \<open>SFTPError\<close>.
\<close>

definition demo_closed_client :: ssh_client where
  "demo_closed_client =
     \<lparr>conn_state = Conn_Closed,
      start_sftp_client = Inl (Exn SSH_Error ''SSH connection closed'' None),
      create_process = (\<lambda>command. Inl (Exn SSH_Error ''SSH connection closed'' None))\<rparr>"

text \<open>
  \<open>asyncssh.connect\<close> to a server that accepts the password \<open>secret\<close>; on the host
  \<open>closed-port\<close> nothing listens, and the connection is refused with an \<open>OSError\<close>
  (\<open>ConnectionRefusedError\<close>).
\<close>

definition demo_connect :: "string \<Rightarrow> int \<Rightarrow> string \<Rightarrow> string \<Rightarrow> int \<Rightarrow> exn + ssh_client" where
  "demo_connect hostname port username password keepalive_interval =
     (if hostname = ''closed-port'' then Inl (Exn OS_Error ''Connect call failed'' None)
      else if password = ''secret'' then Inr demo_client
      else Inl (Exn SSH_Error ''Permission denied'' None))"

section \<open>Facts about the model\<close>

subsection \<open>Rounding\<close>



lemma py_round_of_int: "py_round (of_int n) = n"
  by (simp add: py_round_def)

lemma py_round_mono_int: "x \<le> of_int t \<Longrightarrow> py_round x \<le> t"
proof -
  assume le: "x \<le> of_int t"
  have fl: "\<lfloor>x\<rfloor> \<le> t"
    using le by (simp add: floor_le_iff)
  show ?thesis
  proof (cases "\<lfloor>x\<rfloor> = t")
    case True
    then have "x = of_int t"
      using le of_int_floor_le [of x] by linarith
    then show ?thesis by (simp add: py_round_of_int)
  next
    case False
    then have "\<lfloor>x\<rfloor> + 1 \<le> t" using fl by linarith
    then show ?thesis by (auto simp: py_round_def Let_def)
  qed
qed

lemma py_round_ge_int: "of_int m \<le> x \<Longrightarrow> m \<le> py_round x"
proof -
  assume "of_int m \<le> x"
  then have "m \<le> \<lfloor>x\<rfloor>"
    by (simp add: le_floor_iff)
  then show ?thesis
    by (auto simp: py_round_def Let_def)
qed

subsection \<open>Float subtraction\<close>

text \<open>
  \<open>floor_log2\<close> gives a power of two below its argument, so that the mantissa of a normal
  number fills its \<open>53\<close> bits. Rounding to a float does not pass an integer of at most
  \<open>53\<close> bits, is the identity on such an integer, and moves a number by at most half a
  unit in its last place.
\<close>

lemma floor_log2_le:
  assumes "0 < a"
  shows "2 powi (floor_log2 a) \<le> a"
proof -
  obtain p q where pq: "quotient_of a = (p, q)"
    by (cases "quotient_of a")
  then have q: "0 < q" and a: "a = of_int p / of_int q"
    by (simp_all add: quotient_of_denom_pos quotient_of_div)
  from assms a q have p: "0 < p"
    by (simp add: zero_less_divide_iff)
  define k where "k = bitlen p - bitlen q"
  show ?thesis
  proof (cases "2 powi k \<le> a")
    case True
    then show ?thesis
      by (simp add: floor_log2_def pq k_def)
  next
    case False
    then have fl: "floor_log2 a = k - 1"
      by (simp add: floor_log2_def pq k_def)
    have bp: "1 \<le> bitlen p" "(2::int) ^ nat (bitlen p - 1) \<le> p"
      using bitlen_bounds [OF p] p by (auto simp: bitlen_alt_def)
    have bq: "0 \<le> bitlen q" "q < (2::int) ^ nat (bitlen q)"
      using bitlen_bounds [OF q] bitlen_nonneg by auto
    have lo: "(2::rat) powi (bitlen p - 1) \<le> of_int p"
    proof -
      have "(2::rat) powi (bitlen p - 1) = of_int (2 ^ nat (bitlen p - 1))"
        using bp(1) by (simp add: power_int_def)
      also have "\<dots> \<le> of_int p"
        using bp(2) by (simp only: of_int_le_iff)
      finally show ?thesis .
    qed
    have hi: "of_int q \<le> (2::rat) powi (bitlen q)"
    proof -
      have "(of_int q :: rat) \<le> of_int (2 ^ nat (bitlen q))"
        using bq(2) by (simp only: of_int_le_iff)
      also have "\<dots> = (2::rat) powi (bitlen q)"
        using bq(1) by (simp add: power_int_def)
      finally show ?thesis .
    qed
    have "(2::rat) powi (k - 1) = 2 powi (bitlen p - 1) / 2 powi (bitlen q)"
      unfolding k_def using power_int_diff [of "2::rat" "bitlen p - 1" "bitlen q"]
      by (simp add: algebra_simps)
    also have "\<dots> \<le> of_int p / 2 powi (bitlen q)"
      using lo by (simp add: divide_right_mono)
    also have "\<dots> \<le> of_int p / of_int q"
      using hi p q by (simp add: frac_le)
    finally have "(2::rat) powi (k - 1) \<le> a"
      by (simp only: a)
    then show ?thesis
      by (simp only: fl)
  qed
qed


lemma float_round_minus: "float_round (- x) = - float_round x"
  by (simp add: float_round_def Let_def)

lemma float_round_pos_shape:
  assumes "0 < x"
  obtains e where "float_round x = of_int (py_round (x / 2 powi e)) * 2 powi e"
    and "e \<le> 0 \<or> (1 \<le> e \<and> 2 powi (e + 52) \<le> x)"
proof -
  define e where "e = max (floor_log2 x - 52) (- 1074)"
  have 1: "float_round x = of_int (py_round (x / 2 powi e)) * 2 powi e"
    using assms by (simp add: float_round_def Let_def e_def)
  have 2: "e \<le> 0 \<or> (1 \<le> e \<and> 2 powi (e + 52) \<le> x)"
  proof (cases "e \<le> 0")
    case True
    then show ?thesis by simp
  next
    case False
    then have "e = floor_log2 x - 52"
      unfolding e_def by linarith
    then have "floor_log2 x = e + 52" by simp
    with floor_log2_le [OF assms] False show ?thesis by simp
  qed
  from 1 2 show ?thesis by (rule that)
qed

lemma int_on_grid:
  assumes "e \<le> 0"
  obtains T :: int where "of_int t / (2::rat) powi e = of_int T" "0 < t \<Longrightarrow> 0 < T"
proof -
  have "(2::rat) powi e = 1 / 2 ^ nat (- e)"
    using assms by (simp add: power_int_def field_simps)
  then have "of_int t / (2::rat) powi e = of_int (t * 2 ^ nat (- e))"
    by simp
  moreover have "0 < t \<Longrightarrow> 0 < t * 2 ^ nat (- e)"
    by simp
  ultimately show ?thesis by (rule that)
qed

lemma float_round_le_int_pos:
  assumes "0 < x" "x \<le> of_int t" "t \<le> 2 ^ 53"
  shows "float_round x \<le> of_int t"
proof -
  obtain e where fr: "float_round x = of_int (py_round (x / 2 powi e)) * 2 powi e"
    and e: "e \<le> 0 \<or> (1 \<le> e \<and> 2 powi (e + 52) \<le> x)"
    using float_round_pos_shape [OF assms(1)] by blast
  have P: "(0::rat) < 2 powi e" by simp
  from e show ?thesis
  proof
    assume "e \<le> 0"
    then obtain T :: int where T: "of_int t / (2::rat) powi e = of_int T"
      using int_on_grid by blast
    have "x / 2 powi e \<le> of_int t / 2 powi e"
      using assms(2) P by (simp add: divide_right_mono)
    then have "py_round (x / 2 powi e) \<le> T"
      unfolding T by (rule py_round_mono_int)
    then have "of_int (py_round (x / 2 powi e)) * 2 powi e \<le> of_int T * (2::rat) powi e"
      using P by (simp add: mult_right_mono)
    also have "\<dots> = of_int t"
      using T P by (simp add: field_simps)
    finally show ?thesis unfolding fr .
  next
    assume h: "1 \<le> e \<and> 2 powi (e + 52) \<le> x"
    have t53: "(of_int t :: rat) \<le> 2 ^ 53"
      using assms(3) by (metis of_int_le_iff of_int_numeral of_int_power)
    have "(2::rat) powi (e + 52) \<le> 2 ^ 53"
      using h assms(2) t53 by linarith
    also have "(2::rat) ^ 53 = 2 powi 53"
      by simp
    finally have le53: "(2::rat) powi (e + 52) \<le> 2 powi 53" .
    have gt1: "1 < (2::rat)" and n53: "(0::int) \<le> 53"
      by simp_all
    have "e + 52 \<le> 53"
      using gt1 le53 n53 by (rule power_int_le_imp_le_exp)
    with h have e1: "e = 1" by linarith
    have "(2::rat) powi (1 + 52) = 2 ^ 53" by simp
    with h e1 have "2 ^ 53 \<le> x" by simp
    with assms(2) t53 have x: "x = 2 ^ 53" and t: "of_int t = (2::rat) ^ 53"
      by simp_all
    have "x / 2 powi e = of_int (2 ^ 52)"
      unfolding x e1 by simp
    then have "py_round (x / 2 powi e) = 2 ^ 52"
      by (simp only: py_round_of_int)
    then show ?thesis
      unfolding fr t e1 by simp
  qed
qed

lemma float_round_ge_int_pos:
  assumes "0 < s" "of_int s \<le> x" "s \<le> 2 ^ 53"
  shows "of_int s \<le> float_round x"
proof -
  have x: "0 < x" using assms(1,2) by (meson less_le_trans of_int_0_less_iff)
  obtain e where fr: "float_round x = of_int (py_round (x / 2 powi e)) * 2 powi e"
    and e: "e \<le> 0 \<or> (1 \<le> e \<and> 2 powi (e + 52) \<le> x)"
    using float_round_pos_shape [OF x] by blast
  have P: "(0::rat) < 2 powi e" by simp
  from e show ?thesis
  proof
    assume "e \<le> 0"
    then obtain S :: int where S: "of_int s / (2::rat) powi e = of_int S"
      using int_on_grid by blast
    have "of_int s / 2 powi e \<le> x / 2 powi e"
      using assms(2) P by (simp add: divide_right_mono)
    then have "S \<le> py_round (x / 2 powi e)"
      unfolding S by (rule py_round_ge_int)
    then have "of_int S * (2::rat) powi e \<le> of_int (py_round (x / 2 powi e)) * 2 powi e"
      using P by (simp add: mult_right_mono)
    moreover have "of_int S * (2::rat) powi e = of_int s"
      using S P by (simp add: field_simps)
    ultimately show ?thesis unfolding fr by simp
  next
    assume h: "1 \<le> e \<and> 2 powi (e + 52) \<le> x"
    have "(2::rat) powi (e + 52) / 2 powi e \<le> x / 2 powi e"
      using h P by (simp add: divide_right_mono)
    moreover have "(2::rat) powi (e + 52) / 2 powi e = of_int (2 ^ 52)"
      using power_int_diff [of "2::rat" "e + 52" e] by simp
    ultimately have "of_int (2 ^ 52) \<le> x / 2 powi e" by simp
    then have m: "2 ^ 52 \<le> py_round (x / 2 powi e)"
      by (rule py_round_ge_int)
    have "(2::rat) powi 1 \<le> 2 powi e"
      using h by (intro power_int_increasing) simp_all
    then have P2: "(2::rat) \<le> 2 powi e" by simp
    have "(of_int s :: rat) \<le> 2 ^ 53"
      using assms(3) by (metis of_int_le_iff of_int_numeral of_int_power)
    also have "\<dots> = of_int (2 ^ 52) * 2" by simp
    also have "\<dots> \<le> of_int (py_round (x / 2 powi e)) * 2 powi e"
      using m P2 by (intro mult_mono) simp_all
    finally show ?thesis unfolding fr .
  qed
qed

lemma float_round_sign: "0 \<le> x \<Longrightarrow> 0 \<le> float_round x"
proof -
  assume "0 \<le> x"
  have "0 \<le> py_round (y / 2 powi e)" if "0 \<le> y" for y :: rat and e
    using that by (intro py_round_ge_int) simp
  with \<open>0 \<le> x\<close> show ?thesis
    by (simp add: float_round_def Let_def sgn_if)
qed

lemma float_round_le_int:
  assumes "x \<le> of_int t" "\<bar>t\<bar> \<le> 2 ^ 53"
  shows "float_round x \<le> of_int t"
proof -
  consider "0 < x" | "x = 0" | "x < 0 \<and> 0 \<le> t" | "x < 0 \<and> t < 0"
    by linarith
  then show ?thesis
  proof cases
    case 1
    with assms show ?thesis by (intro float_round_le_int_pos) simp_all
  next
    case 2
    with assms(1) show ?thesis by (simp add: float_round_def)
  next
    case 3
    then have "0 \<le> float_round (- x)"
      by (intro float_round_sign) simp
    with 3 show ?thesis
      by (simp add: float_round_minus)
  next
    case 4
    then have "of_int (- t) \<le> float_round (- x)"
      using assms by (intro float_round_ge_int_pos) simp_all
    then show ?thesis
      by (simp add: float_round_minus)
  qed
qed


lemma float_round_of_int:
  assumes "\<bar>n\<bar> \<le> 2 ^ 53"
  shows "float_round (of_int n) = of_int n"
proof -
  have "float_round (of_int n) \<le> of_int n"
    using assms by (intro float_round_le_int) simp_all
  moreover have "float_round (of_int (- n)) \<le> of_int (- n)"
    using assms by (intro float_round_le_int) simp_all
  then have "of_int n \<le> float_round (of_int n)"
    by (simp add: float_round_minus)
  ultimately show ?thesis by simp
qed






subsection \<open>The polling loop\<close>

text \<open>
  The loop ends at the first call of \<open>exit_status_ready()\<close> that answers true, if there is
  one, and does not end otherwise.
\<close>

lemma wait_until_ready_finds:
  "ready (k + n) \<Longrightarrow> \<exists>m. wait_until_ready ready ci k = Some m \<and> k \<le> m \<and> m \<le> k + n \<and> ready m"
proof (induction n arbitrary: k)
  case 0
  then show ?case by (subst wait_until_ready.simps) simp
next
  case (Suc n)
  show ?case
  proof (cases "ready k")
    case True
    then show ?thesis by (subst wait_until_ready.simps) simp
  next
    case False
    from Suc.prems have "ready (Suc k + n)" by simp
    from Suc.IH [OF this] obtain m where
      "wait_until_ready ready ci (Suc k) = Some m" "Suc k \<le> m" "m \<le> Suc k + n" "ready m"
      by blast
    with False show ?thesis by (subst wait_until_ready.simps) auto
  qed
qed

lemma wait_until_ready_Some:
  "wait_until_ready ready ci k = Some m \<Longrightarrow> ready m \<and> k \<le> m \<and> (\<forall>j. k \<le> j \<and> j < m \<longrightarrow> \<not> ready j)"
proof (induction rule: wait_until_ready.raw_induct [rotated 1, consumes 1])
  case (1 wur ready ci k m)
  show ?case
  proof (cases "ready k")
    case True
    with 1(2) show ?thesis by auto
  next
    case False
    with 1(2) have "wur ready ci (Suc k) = Some m" by simp
    from 1(1) [OF this] have "ready m" "Suc k \<le> m" "\<forall>j. Suc k \<le> j \<and> j < m \<longrightarrow> \<not> ready j"
      by blast+
    with False show ?thesis
      by (metis Suc_leD le_antisym not_less_eq_eq)
  qed
qed

lemma wait_until_ready_None:
  "(\<forall>n. \<not> ready n) \<Longrightarrow> wait_until_ready ready ci k = None"
  using wait_until_ready_Some [of ready ci k] by (cases "wait_until_ready ready ci k") auto

subsection \<open>The search loop\<close>



subsection \<open>The decoder on well-formed and on ill-formed input\<close>

text \<open>
  ASCII bytes decode to themselves; the encoding of any sequence of Unicode scalar values
  decodes to that sequence; and on the ill-formed sequence that the Unicode standard uses to
  show the replacement of maximal subparts, the decoder gives the standard's result.
\<close>

lemma utf8_decode_ascii: "\<forall>b \<in> set bs. b < 0x80 \<Longrightarrow> utf8_decode bs = bs"
  by (induction bs) auto

lemma mod_offset: "(q::nat) < n \<Longrightarrow> (k * n + q) mod n = q"
  by simp

lemma is_cont_low6: "is_cont (0x80 + r mod 64) \<and> (0x80 + r mod 64) mod 64 = r mod 64"
proof -
  have "r mod 64 < 64" by simp
  then show ?thesis
    using mod_offset [of "r mod 64" 64 2] by (simp add: is_cont_def)
qed

lemma split_4096: "(c::nat) div 4096 * 4096 + (c div 64) mod 64 * 64 + c mod 64 = c"
proof -
  define a where "a = c div 64"
  define q where "q = a div 64"
  define r where "r = a mod 64"
  define m where "m = c mod 64"
  have 1: "c = a * 64 + m" unfolding a_def m_def by simp
  have 2: "a = q * 64 + r" unfolding q_def r_def by simp
  have 3: "c div 4096 = q" unfolding q_def a_def by (simp add: div_mult2_eq [symmetric])
  have "q * 4096 + r * 64 + m = c" unfolding 1 2 by simp
  then show ?thesis unfolding 3 r_def a_def m_def .
qed

lemma split_262144:
  "(c::nat) div 262144 * 262144 + (c div 4096) mod 64 * 4096 + (c div 64) mod 64 * 64 + c mod 64 = c"
proof -
  define a where "a = c div 4096"
  define q where "q = a div 64"
  define r where "r = a mod 64"
  define m where "m = (c div 64) mod 64 * 64 + c mod 64"
  have 1: "c = a * 4096 + m" unfolding a_def m_def using split_4096 [of c] by simp
  have 2: "a = q * 64 + r" unfolding q_def r_def by simp
  have 3: "c div 262144 = q" unfolding q_def a_def by (simp add: div_mult2_eq [symmetric])
  have "q * 262144 + r * 4096 + m = c" unfolding 1 2 by simp
  then show ?thesis unfolding 3 r_def a_def m_def by simp
qed

lemma utf8_decode_encode_1:
  assumes "c < 0x80"
  shows "utf8_decode (utf8_encode c @ s) = c # utf8_decode s"
  using assms by (simp add: utf8_encode_def)

lemma utf8_decode_encode_2:
  assumes "0x80 \<le> c" "c < 0x800"
  shows "utf8_decode (utf8_encode c @ s) = c # utf8_decode s"
proof -
  define ch where "ch = 0xC0 + c div 64"
  define ch2 where "ch2 = 0x80 + c mod 64"
  have enc: "utf8_encode c = [ch, ch2]"
    using assms by (simp add: utf8_encode_def ch_def ch2_def)
  have q: "2 \<le> c div 64" "c div 64 < 32"
    using assms by simp_all
  have ch: "0xC2 \<le> ch" "ch < 0xE0" "\<not> ch < 0x80"
    using q unfolding ch_def by simp_all
  have chm: "ch mod 32 = c div 64"
    using mod_offset [of "c div 64" 32 6] q unfolding ch_def by simp
  have ch2: "is_cont ch2" "ch2 mod 64 = c mod 64"
    using is_cont_low6 [of c] unfolding ch2_def by simp_all
  have "(ch mod 32) * 64 + ch2 mod 64 = c"
    unfolding chm ch2(2) by simp
  then show ?thesis
    using ch ch2(1) by (simp add: enc)
qed


lemma utf8_decode_encode_3:
  assumes "0x800 \<le> c" "c < 0x10000" "c < 0xD800 \<or> 0xE000 \<le> c"
  shows "utf8_decode (utf8_encode c @ s) = c # utf8_decode s"
proof -
  define ch where "ch = 0xE0 + c div 4096"
  define ch2 where "ch2 = 0x80 + (c div 64) mod 64"
  define ch3 where "ch3 = 0x80 + c mod 64"
  have enc: "utf8_encode c = [ch, ch2, ch3]"
    using assms by (simp add: utf8_encode_def ch_def ch2_def ch3_def)
  have q: "c div 4096 < 16"
    using assms by simp
  have ch: "\<not> ch < 0x80" "\<not> ch < 0xE0" "ch < 0xF0"
    using q unfolding ch_def by simp_all
  have chm: "ch mod 16 = c div 4096"
    using mod_offset [of "c div 4096" 16 14] q unfolding ch_def by simp
  have ch2: "is_cont ch2" "ch2 mod 64 = (c div 64) mod 64"
    using is_cont_low6 [of "c div 64"] unfolding ch2_def by simp_all
  have ch3: "is_cont ch3" "ch3 mod 64 = c mod 64"
    using is_cont_low6 [of c] unfolding ch3_def by simp_all
  have e0: "\<not> ch2 < 0xA0" if "ch = 0xE0"
  proof -
    from that have "c div 4096 = 0" unfolding ch_def by simp
    then have "c < 4096" by simp
    then have "c div 64 < 64" by simp
    moreover have "32 \<le> c div 64" using assms(1) by simp
    ultimately show ?thesis unfolding ch2_def by simp
  qed
  have ed: "ch2 < 0xA0" if "ch = 0xED"
  proof -
    from that have d: "c div 4096 = 13" unfolding ch_def by simp
    then have "c < 0xE000" by linarith
    with assms(3) have "c < 0xD800" by simp
    then have hi: "c div 64 < 864" by simp
    from d have "0xD000 \<le> c" by linarith
    then have lo: "832 \<le> c div 64" by simp
    define r where "r = c div 64 - 832"
    have "c div 64 = 13 * 64 + r" "r < 32"
      using lo hi unfolding r_def by simp_all
    then have "(c div 64) mod 64 = r"
      using mod_offset [of r 64 13] by simp
    with \<open>r < 32\<close> show ?thesis unfolding ch2_def by simp
  qed
  have ok2: "\<not> (\<not> is_cont ch2 \<or> (if ch2 < 0xA0 then ch = 0xE0 else ch = 0xED))"
    using ch2(1) e0 ed by auto
  have val: "(ch mod 16) * 4096 + (ch2 mod 64) * 64 + ch3 mod 64 = c"
    unfolding chm ch2(2) ch3(2) by (rule split_4096)
  have "utf8_decode (ch # ch2 # ch3 # s)
        = ((ch mod 16) * 4096 + (ch2 mod 64) * 64 + ch3 mod 64) # utf8_decode s"
    by (simp only: utf8_decode.simps ch ok2 ch3(1) if_False if_True list.case
        not_True_eq_False not_False_eq_True)
  then show ?thesis
    unfolding val by (simp add: enc)
qed

lemma utf8_decode_encode_4:
  assumes "0x10000 \<le> c" "c < 0x110000"
  shows "utf8_decode (utf8_encode c @ s) = c # utf8_decode s"
proof -
  define ch where "ch = 0xF0 + c div 262144"
  define ch2 where "ch2 = 0x80 + (c div 4096) mod 64"
  define ch3 where "ch3 = 0x80 + (c div 64) mod 64"
  define ch4 where "ch4 = 0x80 + c mod 64"
  have enc: "utf8_encode c = [ch, ch2, ch3, ch4]"
    using assms by (simp add: utf8_encode_def ch_def ch2_def ch3_def ch4_def)
  have q: "c div 262144 < 5"
    using assms by simp
  have ch: "\<not> ch < 0x80" "\<not> ch < 0xE0" "\<not> ch < 0xF0" "ch < 0xF5"
    using q unfolding ch_def by simp_all
  have chm: "ch mod 8 = c div 262144"
    using mod_offset [of "c div 262144" 8 30] q unfolding ch_def by simp
  have ch2: "is_cont ch2" "ch2 mod 64 = (c div 4096) mod 64"
    using is_cont_low6 [of "c div 4096"] unfolding ch2_def by simp_all
  have ch3: "is_cont ch3" "ch3 mod 64 = (c div 64) mod 64"
    using is_cont_low6 [of "c div 64"] unfolding ch3_def by simp_all
  have ch4: "is_cont ch4" "ch4 mod 64 = c mod 64"
    using is_cont_low6 [of c] unfolding ch4_def by simp_all
  have f0: "\<not> ch2 < 0x90" if "ch = 0xF0"
  proof -
    from that have "c div 262144 = 0" unfolding ch_def by simp
    then have "c < 262144" by simp
    then have "c div 4096 < 64" by simp
    moreover have "16 \<le> c div 4096" using assms(1) by simp
    ultimately show ?thesis unfolding ch2_def by simp
  qed
  have f4: "ch2 < 0x90" if "ch = 0xF4"
  proof -
    from that have d: "c div 262144 = 4" unfolding ch_def by simp
    then have "0x100000 \<le> c" by linarith
    then have lo: "256 \<le> c div 4096" by simp
    have hi: "c div 4096 < 272" using assms(2) by simp
    define r where "r = c div 4096 - 256"
    have "c div 4096 = 4 * 64 + r" "r < 16"
      using lo hi unfolding r_def by simp_all
    then have "(c div 4096) mod 64 = r"
      using mod_offset [of r 64 4] by simp
    with \<open>r < 16\<close> show ?thesis unfolding ch2_def by simp
  qed
  have ok2: "\<not> (\<not> is_cont ch2 \<or> (if ch2 < 0x90 then ch = 0xF0 else ch = 0xF4))"
    using ch2(1) f0 f4 by auto
  have val: "(ch mod 8) * 262144 + (ch2 mod 64) * 4096 + (ch3 mod 64) * 64 + ch4 mod 64 = c"
    unfolding chm ch2(2) ch3(2) ch4(2) by (rule split_262144)
  have "utf8_decode (ch # ch2 # ch3 # ch4 # s)
        = ((ch mod 8) * 262144 + (ch2 mod 64) * 4096 + (ch3 mod 64) * 64 + ch4 mod 64)
          # utf8_decode s"
    by (simp only: utf8_decode.simps ch ok2 ch3(1) ch4(1) if_False if_True list.case
        not_True_eq_False not_False_eq_True)
  then show ?thesis
    unfolding val by (simp add: enc)
qed

lemma utf8_decode_encode:
  "is_scalar_value c \<Longrightarrow> utf8_decode (utf8_encode c @ s) = c # utf8_decode s"
  using utf8_decode_encode_1 [of c s] utf8_decode_encode_2 [of c s]
    utf8_decode_encode_3 [of c s] utf8_decode_encode_4 [of c s]
  unfolding is_scalar_value_def by linarith

lemma utf8_decode_well_formed:
  "\<forall>c \<in> set cs. is_scalar_value c \<Longrightarrow> utf8_decode (concat (map utf8_encode cs)) = cs"
  by (induction cs) (simp_all add: utf8_decode_encode)

lemma utf8_decode_maximal_subparts:
  "utf8_decode [0x61, 0xF1, 0x80, 0x80, 0xE1, 0x80, 0xC2, 0x62, 0x80, 0x63, 0x80, 0xBF, 0x64]
     = [0x61, 0xFFFD, 0xFFFD, 0xFFFD, 0x62, 0xFFFD, 0x63, 0xFFFD, 0xFFFD, 0x64]"
  by (simp add: is_cont_def)

subsection \<open>\<open>str\<close> of an integer determines the integer\<close>








subsection \<open>What the handlers leave alone\<close>

text \<open>
  An exception of a class that no handler of a function names leaves the function as it
  is.
\<close>

lemma connect_ssh_propagates:
  "asyncssh_connect hostname port username password keepalive_interval = Inl e \<Longrightarrow>
   \<not> is_asyncssh_Error e \<Longrightarrow>
   connect_ssh asyncssh_connect hostname port username password keepalive_interval = Inl e"
  by (simp add: connect_ssh_def)

lemma execute_command_propagates:
  "execute_command_try client command wait_for_response check_interval timeout time_time
     = Some (Inl e) \<Longrightarrow>
   \<not> is_asyncssh_Error e \<Longrightarrow> \<not> is_asyncio_TimeoutError e \<Longrightarrow>
   execute_command client command wait_for_response check_interval timeout time_time
     = Some (Inl e)"
  by (simp add: execute_command_def)

lemma upload_file_propagates:
  "upload_file_try client local_file_path remote_folder new_filename = Inl e \<Longrightarrow>
   \<not> is_FileNotFoundError e \<Longrightarrow> \<not> is_SFTPError e \<Longrightarrow>
   upload_file client local_file_path remote_folder new_filename = Inl e"
  by (simp add: upload_file_def)

lemma download_file_propagates:
  "download_file_try client remote_file_path local_folder new_filename = Inl e \<Longrightarrow>
   \<not> is_FileNotFoundError e \<Longrightarrow> \<not> is_SFTPError e \<Longrightarrow>
   download_file client remote_file_path local_folder new_filename = Inl e"
  by (simp add: download_file_def)

lemma check_remote_file_propagates:
  "check_remote_file_try client remote_file_path = Inl e \<Longrightarrow> \<not> is_SFTPError e \<Longrightarrow>
   check_remote_file client remote_file_path = Inl e"
  by (simp add: check_remote_file_def)

lemma find_file_propagates:
  "find_file_try client remote_directory pre = Inl e \<Longrightarrow> \<not> is_SFTPError e \<Longrightarrow>
   find_file client remote_directory pre = Inl e"
  by (simp add: find_file_def)

section \<open>The properties of the specification\<close>

subsection \<open>\<open>execute_command\<close>, waiting\<close>







subsection \<open>\<open>execute_command\<close>, not waiting\<close>

text \<open>
  With \<open>wait_for_response = False\<close> the function polls \<open>process.exit_status_ready()\<close>. On
  an object that has this method the call returns \<open>("", exit_status, 0.0)\<close> once the method
  answers true, does not return while it answers false, and raises nothing; on an object
  that has no such method the first poll raises \<open>AttributeError\<close>, which no handler
  catches.
\<close>

lemma execute_command_no_wait_polling:
  assumes "create_process client command = Inr p"
    and "exit_status_ready p = Some ready"
  shows "((\<exists>n. ready n) \<longrightarrow>
            execute_command client command False check_interval timeout time_time
              = Some (Inr ([], exit_status p, Float_Val 0)))
         \<and> ((\<forall>n. \<not> ready n) \<longrightarrow>
            execute_command client command False check_interval timeout time_time = None)
         \<and> (\<forall>e. execute_command client command False check_interval timeout time_time
                  \<noteq> Some (Inl e))"
proof -
  have ex: "execute_command client command False check_interval timeout time_time
            = (case wait_until_ready ready check_interval 0 of
                 None \<Rightarrow> None
               | Some k \<Rightarrow> Some (Inr ([], exit_status p, Float_Val 0)))"
    using assms by (simp add: execute_command_def execute_command_try_def split: option.splits)
  have "(\<exists>n. ready n) \<longrightarrow> (\<exists>m. wait_until_ready ready check_interval 0 = Some m)"
    using wait_until_ready_finds [of ready 0 _ check_interval] by auto
  moreover have "(\<forall>n. \<not> ready n) \<longrightarrow> wait_until_ready ready check_interval 0 = None"
    using wait_until_ready_None [of ready] by blast
  ultimately show ?thesis
    unfolding ex by (auto split: option.splits)
qed

lemma execute_command_no_wait_without_method:
  assumes "create_process client command = Inr p"
    and "exit_status_ready p = None"
  shows "execute_command client command False check_interval timeout time_time
           = Some (Inl (attribute_error ''SSHClientProcess'' ''exit_status_ready''))"
  using assms
  by (simp add: execute_command_def execute_command_try_def attribute_error_def
      is_asyncssh_Error_def is_asyncio_TimeoutError_def)

text \<open>
  C3. The claim is that with \<open>wait_for_response = False\<close> the call returns
  \<open>("", exit_status, 0.0)\<close> after the process has ended. On a process of asyncssh the call
  raises \<open>AttributeError\<close> instead, whatever the command: here for \<open>ls\<close>.
\<close>

theorem execute_command_no_wait_attribute_error:
  "execute_command demo_client ''ls'' False 10 None 1000
     = Some (Inl (attribute_error ''SSHClientProcess'' ''exit_status_ready''))
   \<and> cls (attribute_error ''SSHClientProcess'' ''exit_status_ready'') = Attribute_Error"
  by (simp add: execute_command_def execute_command_try_def attribute_error_def
      is_asyncssh_Error_def is_asyncio_TimeoutError_def demo_client_def demo_process_def)

subsection \<open>\<open>execute_command\<close>, errors of the channel\<close>

text \<open>
  C4, as amended. An exception raised by the process channel, when the process is created,
  while its end is awaited (before a timeout has expired), or when its output streams are
  read, leaves \<open>execute_command\<close> as a \<open>ValueError\<close> whose cause is that exception when it
  is an \<open>asyncssh.Error\<close>: neither the error itself nor an \<open>asyncio.TimeoutError\<close>. An
  exception that is neither an \<open>asyncssh.Error\<close> nor an \<open>asyncio.TimeoutError\<close>, such as an
  \<open>OSError\<close> of the network, leaves \<open>execute_command\<close> as it is.
\<close>

theorem execute_command_transport_error:
  assumes "create_process client command = Inl e
         \<or> (\<exists>p d. create_process client command = Inr p \<and> wait_for_response
                  \<and> runtime p = Some d
                  \<and> (case timeout of None \<Rightarrow> True | Some t \<Rightarrow> d < of_int t)
                  \<and> (wait_closed_raises p = Some e
                     \<or> (wait_closed_raises p = None \<and> stdout_read p = Inl e)
                     \<or> (wait_closed_raises p = None \<and> (\<exists>out. stdout_read p = Inr out)
                        \<and> stderr_read p = Inl e)))"
  shows "(is_asyncssh_Error e \<longrightarrow>
            (\<exists>x. execute_command client command wait_for_response check_interval timeout time_time
                    = Some (Inl x)
                  \<and> x = Exn Value_Error
                          (''SSH error during command execution: '' @ message e) (Some e)
                  \<and> is_ValueError x \<and> \<not> is_asyncssh_Error x \<and> \<not> is_asyncio_TimeoutError x))
         \<and> (\<not> is_asyncssh_Error e \<and> \<not> is_asyncio_TimeoutError e \<longrightarrow>
              execute_command client command wait_for_response check_interval timeout time_time
                = Some (Inl e))"
proof -
  have "execute_command_try client command wait_for_response check_interval timeout time_time
        = Some (Inl e)"
    using assms
    by (auto simp: execute_command_try_def process_wait_closed_def asyncio_wait_for_def
        split: option.splits)
  then show ?thesis
    by (simp add: execute_command_def is_ValueError_def is_asyncssh_Error_def
        is_asyncio_TimeoutError_def)
qed

theorem execute_command_transport_error_witness:
  "execute_command demo_client ''false'' True 10 None 1000
     = Some (Inl (Exn Value_Error ''SSH error during command execution: Channel open failed''
                    (Some (Exn SSH_Error ''Channel open failed'' None))))
   \<and> execute_command demo_client ''lost'' True 10 (Some 3) 1000
     = Some (Inl (Exn Value_Error ''SSH error during command execution: Connection lost''
                    (Some (Exn SSH_Error ''Connection lost'' None))))"
proof -
  have "execute_command demo_client ''false'' True 10 None 1000
     = Some (Inl (Exn Value_Error ''SSH error during command execution: Channel open failed''
                    (Some (Exn SSH_Error ''Channel open failed'' None))))"
  proof -
    define e where "e = Exn SSH_Error ''Channel open failed'' None"
    have "create_process demo_client ''false'' = Inl e"
      by (simp add: demo_client_def e_def)
    then have h: "create_process demo_client ''false'' = Inl e
         \<or> (\<exists>p d. create_process demo_client ''false'' = Inr p \<and> True
                  \<and> runtime p = Some d
                  \<and> (case None of None \<Rightarrow> True | Some t \<Rightarrow> d < rat_of_int t)
                  \<and> (wait_closed_raises p = Some e
                     \<or> (wait_closed_raises p = None \<and> stdout_read p = Inl e)
                     \<or> (wait_closed_raises p = None \<and> (\<exists>out. stdout_read p = Inr out)
                        \<and> stderr_read p = Inl e)))"
      by (rule disjI1)
    have a: "is_asyncssh_Error e"
      by (simp add: is_asyncssh_Error_def e_def)
    from execute_command_transport_error
      [OF h, where check_interval = 10 and time_time = 1000, THEN conjunct1, THEN mp, OF a]
    show ?thesis by (auto simp: e_def)
  qed
  moreover have "execute_command demo_client ''lost'' True 10 (Some 3) 1000
     = Some (Inl (Exn Value_Error ''SSH error during command execution: Connection lost''
                    (Some (Exn SSH_Error ''Connection lost'' None))))"
  proof -
    define e where "e = Exn SSH_Error ''Connection lost'' None"
    define p where "p = demo_process\<lparr>wait_closed_raises := Some e\<rparr>"
    have c: "create_process demo_client ''lost'' = Inr p"
      by (simp add: demo_client_def p_def e_def)
    have r: "runtime p = Some (5 / 2)" and w: "wait_closed_raises p = Some e"
      by (simp_all add: p_def demo_process_def)
    have "(5 / 2 :: rat) < of_int 3"
      by simp
    with c r w have
      "\<exists>p d. create_process demo_client ''lost'' = Inr p \<and> True
                  \<and> runtime p = Some d
                  \<and> (case Some 3 of None \<Rightarrow> True | Some t \<Rightarrow> d < rat_of_int t)
                  \<and> (wait_closed_raises p = Some e
                     \<or> (wait_closed_raises p = None \<and> stdout_read p = Inl e)
                     \<or> (wait_closed_raises p = None \<and> (\<exists>out. stdout_read p = Inr out)
                        \<and> stderr_read p = Inl e))"
      by (intro exI [of _ p] exI [of _ "5 / 2"]) simp
    then have h: "create_process demo_client ''lost'' = Inl e
         \<or> (\<exists>p d. create_process demo_client ''lost'' = Inr p \<and> True
                  \<and> runtime p = Some d
                  \<and> (case Some 3 of None \<Rightarrow> True | Some t \<Rightarrow> d < rat_of_int t)
                  \<and> (wait_closed_raises p = Some e
                     \<or> (wait_closed_raises p = None \<and> stdout_read p = Inl e)
                     \<or> (wait_closed_raises p = None \<and> (\<exists>out. stdout_read p = Inr out)
                        \<and> stderr_read p = Inl e)))"
      by (rule disjI2)
    have a: "is_asyncssh_Error e"
      by (simp add: is_asyncssh_Error_def e_def)
    from execute_command_transport_error
      [OF h, where check_interval = 10 and time_time = 1000, THEN conjunct1, THEN mp, OF a]
    show ?thesis by (auto simp: e_def)
  qed
  ultimately show ?thesis by simp
qed

text \<open>
  C4 as it was stated has every transport-level error of the channel re-raised as the
  error of a failed execution, never raw. An \<open>OSError\<close> that a reset of the connection
  raises under the read of standard output leaves \<open>execute_command\<close> unchanged: it is no
  \<open>ValueError\<close>.
\<close>

theorem execute_command_raw_error_counterexample:
  "execute_command demo_client ''reset'' True 10 None 1000
     = Some (Inl (Exn OS_Error ''Connection reset by peer'' None))
   \<and> \<not> is_ValueError (Exn OS_Error ''Connection reset by peer'' None)"
  by (simp add: execute_command_def execute_command_try_def process_wait_closed_def
      is_asyncssh_Error_def is_asyncio_TimeoutError_def is_ValueError_def
      demo_client_def demo_process_def)

subsection \<open>\<open>connect_ssh\<close> and \<open>disconnect_ssh\<close>\<close>

text \<open>
  C5, as amended. When \<open>asyncssh.connect\<close> fails with an \<open>asyncssh.Error\<close> (the class of
  the library's authentication and protocol failures), \<open>connect_ssh\<close> raises a
  \<open>ValueError\<close> whose cause is that error; when it fails with an exception of another
  class, such as the \<open>OSError\<close> of a refused connection, \<open>connect_ssh\<close> raises that
  exception unchanged; in both cases it returns no connection.
\<close>

theorem connect_ssh_failure:
  assumes "asyncssh_connect hostname port username password keepalive_interval = Inl e"
  shows "(is_asyncssh_Error e \<longrightarrow>
            connect_ssh asyncssh_connect hostname port username password keepalive_interval
              = Inl (Exn Value_Error (''SSH connection error: '' @ message e) (Some e)))
         \<and> (\<not> is_asyncssh_Error e \<longrightarrow>
              connect_ssh asyncssh_connect hostname port username password keepalive_interval
                = Inl e)
         \<and> (\<forall>client. connect_ssh asyncssh_connect hostname port username password
                         keepalive_interval \<noteq> Inr client)"
  using assms by (simp add: connect_ssh_def)

theorem connect_ssh_failure_witness:
  "connect_ssh demo_connect ''host'' 22 ''user'' ''wrong'' 30
     = Inl (Exn Value_Error ''SSH connection error: Permission denied''
              (Some (Exn SSH_Error ''Permission denied'' None)))"
proof -
  have f: "demo_connect ''host'' 22 ''user'' ''wrong'' 30
             = Inl (Exn SSH_Error ''Permission denied'' None)"
    by (simp add: demo_connect_def)
  have a: "is_asyncssh_Error (Exn SSH_Error ''Permission denied'' None)"
    by (simp add: is_asyncssh_Error_def)
  from connect_ssh_failure
    [where asyncssh_connect = demo_connect and hostname = "''host''" and port = 22
       and username = "''user''" and password = "''wrong''" and keepalive_interval = 30
       and e = "Exn SSH_Error ''Permission denied'' None",
     OF f, THEN conjunct1, THEN mp, OF a]
  show ?thesis by simp
qed

text \<open>
  C5 as it was stated has every authentication or transport failure wrapped. A refused
  connection is an \<open>OSError\<close>, and leaves \<open>connect_ssh\<close> as it is: no \<open>ValueError\<close>.
\<close>

theorem connect_ssh_raw_error_counterexample:
  "connect_ssh demo_connect ''closed-port'' 22 ''user'' ''secret'' 30
     = Inl (Exn OS_Error ''Connect call failed'' None)
   \<and> \<not> is_ValueError (Exn OS_Error ''Connect call failed'' None)"
  by (simp add: connect_ssh_def demo_connect_def is_asyncssh_Error_def is_ValueError_def)

text \<open>
  C6. \<open>disconnect_ssh(None)\<close> does nothing. On a connection, whatever its state,
  \<open>disconnect_ssh\<close> returns, raises nothing, and leaves the connection closed: a closed
  connection stays as it is, and a live one has completed its shutdown when the call
  returns.
\<close>

theorem disconnect_ssh_safe:
  "disconnect_ssh None = Some (Inr None)
   \<and> (conn_state c = Conn_Closed \<longrightarrow> disconnect_ssh (Some c) = Some (Inr (Some c)))
   \<and> (conn_state c \<noteq> Conn_Closed \<longrightarrow>
        disconnect_ssh (Some c) = Some (Inr (Some (c\<lparr>conn_state := Conn_Closed\<rparr>))))
   \<and> (\<forall>e. disconnect_ssh (Some c) \<noteq> Some (Inl e))
   \<and> disconnect_ssh (Some c) \<noteq> None"
  by (cases "conn_state c")
     (simp_all add: disconnect_ssh_def conn_close_def conn_wait_closed_def)

theorem disconnect_ssh_safe_witness:
  "disconnect_ssh (Some demo_client) = Some (Inr (Some (demo_client\<lparr>conn_state := Conn_Closed\<rparr>)))
   \<and> disconnect_ssh (Some (demo_client\<lparr>conn_state := Conn_Closed\<rparr>))
       = Some (Inr (Some (demo_client\<lparr>conn_state := Conn_Closed\<rparr>)))"
  using disconnect_ssh_safe [where c = demo_client]
    disconnect_ssh_safe [where c = "demo_client\<lparr>conn_state := Conn_Closed\<rparr>"]
  by (simp add: demo_client_def)

subsection \<open>The file transfers\<close>

text \<open>
  What the handlers of \<open>download_file\<close> do: a \<open>FileNotFoundError\<close> of the SFTP client or
  the transfer becomes a \<open>FileNotFoundError\<close> with the message \<open>Remote file not found\<close>
  and the remote path; an \<open>asyncssh.SFTPError\<close> becomes a \<open>ValueError\<close>; and after a
  successful transfer the result is whether the destination path
  \<open>os.path.join(local_folder, new_filename)\<close> exists on the local file system.
\<close>

lemma download_file_handlers:
  "((start_sftp_client client = Inl e
     \<or> (\<exists>sftp. start_sftp_client client = Inr sftp
               \<and> get sftp remote_file_path (os_path_join local_folder new_filename) = Inl e))
    \<and> is_FileNotFoundError e \<longrightarrow>
      download_file client remote_file_path local_folder new_filename
        = Inl (Exn File_Not_Found_Error (''Remote file not found: '' @ remote_file_path) (Some e)))
   \<and> ((start_sftp_client client = Inl e
        \<or> (\<exists>sftp. start_sftp_client client = Inr sftp
               \<and> get sftp remote_file_path (os_path_join local_folder new_filename) = Inl e))
       \<and> is_SFTPError e \<longrightarrow>
      download_file client remote_file_path local_folder new_filename
        = Inl (Exn Value_Error (''SFTP error during file download: '' @ message e) (Some e)))
   \<and> (\<forall>sftp local_files.
         start_sftp_client client = Inr sftp
         \<and> get sftp remote_file_path (os_path_join local_folder new_filename) = Inr local_files
         \<longrightarrow> download_file client remote_file_path local_folder new_filename
               = Inr (os_path_join local_folder new_filename \<in> local_files))"
  by (auto simp: download_file_def download_file_try_def is_FileNotFoundError_def
      is_SFTPError_def Let_def split: sum.splits if_splits)

text \<open>
  C7. The claim is that \<open>download_file\<close> fails with the not-found error when the remote
  path does not exist. asyncssh reports such a path by an \<open>SFTPError\<close>, so that
  \<open>download_file\<close> raises the \<open>ValueError\<close> of a failed transfer; the
  \<open>FileNotFoundError\<close> that the function takes for a missing remote file is what a local
  folder that does not exist raises, and is then reported as \<open>Remote file not found\<close>.
\<close>

theorem download_file_missing_remote_path:
  "download_file demo_client ''/srv/nothing'' ''/tmp'' ''b.txt''
     = Inl (Exn Value_Error ''SFTP error during file download: No matches found''
              (Some (Exn SFTP_Error ''No matches found'' None)))
   \<and> download_file demo_client ''/srv/a.txt'' ''/nodir'' ''b.txt''
     = Inl (Exn File_Not_Found_Error ''Remote file not found: /srv/a.txt''
              (Some (Exn File_Not_Found_Error ''No such file or directory'' None)))"
  by (simp add: download_file_def download_file_try_def demo_client_def demo_sftp_def
      os_path_join_def suffix_to_prefix is_FileNotFoundError_def is_SFTPError_def)

text \<open>
  C8, as amended. \<open>upload_file\<close> returns false, and raises nothing, when the SFTP client
  or the transfer fails with \<open>FileNotFoundError\<close> (the local file is missing) or with an
  \<open>asyncssh.SFTPError\<close>. \<open>check_remote_file\<close> returns false, and raises nothing, when the
  SFTP client or the existence check fails with an \<open>asyncssh.SFTPError\<close>, as for a path
  whose parent directory does not exist; otherwise it returns the answer of the check. An
  exception of any other class, such as the \<open>ChannelOpenError\<close> of an SFTP session that
  cannot be opened or an \<open>OSError\<close>, is raised by both functions.
\<close>

theorem upload_and_check_report_false:
  "((start_sftp_client client = Inl e
     \<or> (\<exists>sftp. start_sftp_client client = Inr sftp
               \<and> put sftp local_file_path (remote_folder @ ''/'' @ new_filename) = Some e))
    \<and> (is_FileNotFoundError e \<or> is_SFTPError e) \<longrightarrow>
      upload_file client local_file_path remote_folder new_filename = Inr False)
   \<and> ((start_sftp_client client = Inl e
        \<or> (\<exists>sftp. start_sftp_client client = Inr sftp
                  \<and> exists sftp remote_file_path = Inl e))
       \<and> is_SFTPError e \<longrightarrow>
      check_remote_file client remote_file_path = Inr False)
   \<and> (\<forall>sftp b. start_sftp_client client = Inr sftp \<and> exists sftp remote_file_path = Inr b
         \<longrightarrow> check_remote_file client remote_file_path = Inr b)
   \<and> ((start_sftp_client client = Inl e
        \<or> (\<exists>sftp. start_sftp_client client = Inr sftp
               \<and> put sftp local_file_path (remote_folder @ ''/'' @ new_filename) = Some e))
       \<and> \<not> is_FileNotFoundError e \<and> \<not> is_SFTPError e \<longrightarrow>
      upload_file client local_file_path remote_folder new_filename = Inl e)
   \<and> ((start_sftp_client client = Inl e
        \<or> (\<exists>sftp. start_sftp_client client = Inr sftp
                  \<and> exists sftp remote_file_path = Inl e))
       \<and> \<not> is_SFTPError e \<longrightarrow>
      check_remote_file client remote_file_path = Inl e)"
  by (auto simp: upload_file_def upload_file_try_def check_remote_file_def
      check_remote_file_try_def Let_def)

theorem upload_and_check_report_false_witness:
  "upload_file demo_client ''missing.txt'' ''/srv'' ''a.txt'' = Inr False
   \<and> upload_file demo_client ''a.txt'' ''/etc'' ''a.txt'' = Inr False
   \<and> check_remote_file demo_client ''/nowhere/a.txt'' = Inr False
   \<and> check_remote_file demo_client ''/srv/a.txt'' = Inr True"
proof -
  have s: "start_sftp_client demo_client = Inr demo_sftp"
    by (simp add: demo_client_def)
  have p1: "put demo_sftp ''missing.txt'' (''/srv'' @ ''/'' @ ''a.txt'')
              = Some (Exn File_Not_Found_Error ''missing.txt'' None)"
    by (simp add: demo_sftp_def)
  have p2: "put demo_sftp ''a.txt'' (''/etc'' @ ''/'' @ ''a.txt'')
              = Some (Exn SFTP_Error ''Permission denied'' None)"
    by (simp add: demo_sftp_def)
  have e1: "exists demo_sftp ''/nowhere/a.txt'' = Inl (Exn SFTP_Error ''No such file'' None)"
    by (simp add: demo_sftp_def)
  have e2: "exists demo_sftp ''/srv/a.txt'' = Inr True"
    by (simp add: demo_sftp_def)
  have "upload_file demo_client ''missing.txt'' ''/srv'' ''a.txt'' = Inr False"
  proof -
    have "(start_sftp_client demo_client = Inl (Exn File_Not_Found_Error ''missing.txt'' None)
           \<or> (\<exists>sftp. start_sftp_client demo_client = Inr sftp
                 \<and> put sftp ''missing.txt'' (''/srv'' @ ''/'' @ ''a.txt'')
                     = Some (Exn File_Not_Found_Error ''missing.txt'' None)))
          \<and> (is_FileNotFoundError (Exn File_Not_Found_Error ''missing.txt'' None)
             \<or> is_SFTPError (Exn File_Not_Found_Error ''missing.txt'' None))"
      using s p1 by (simp add: is_FileNotFoundError_def)
    from upload_and_check_report_false
      [where remote_file_path = "''/srv/a.txt''", THEN conjunct1, THEN mp, OF this]
    show ?thesis .
  qed
  moreover have "upload_file demo_client ''a.txt'' ''/etc'' ''a.txt'' = Inr False"
  proof -
    have "(start_sftp_client demo_client = Inl (Exn SFTP_Error ''Permission denied'' None)
           \<or> (\<exists>sftp. start_sftp_client demo_client = Inr sftp
                 \<and> put sftp ''a.txt'' (''/etc'' @ ''/'' @ ''a.txt'')
                     = Some (Exn SFTP_Error ''Permission denied'' None)))
          \<and> (is_FileNotFoundError (Exn SFTP_Error ''Permission denied'' None)
             \<or> is_SFTPError (Exn SFTP_Error ''Permission denied'' None))"
      using s p2 by (simp add: is_SFTPError_def)
    from upload_and_check_report_false
      [where remote_file_path = "''/srv/a.txt''", THEN conjunct1, THEN mp, OF this]
    show ?thesis .
  qed
  moreover have "check_remote_file demo_client ''/nowhere/a.txt'' = Inr False"
  proof -
    have "(start_sftp_client demo_client = Inl (Exn SFTP_Error ''No such file'' None)
           \<or> (\<exists>sftp. start_sftp_client demo_client = Inr sftp
                 \<and> exists sftp ''/nowhere/a.txt'' = Inl (Exn SFTP_Error ''No such file'' None)))
          \<and> is_SFTPError (Exn SFTP_Error ''No such file'' None)"
      using s e1 by (simp add: is_SFTPError_def)
    from upload_and_check_report_false
      [where local_file_path = "''a.txt''" and remote_folder = "''/etc''"
         and new_filename = "''a.txt''",
       THEN conjunct2, THEN conjunct1, THEN mp, OF this]
    show ?thesis .
  qed
  moreover have "check_remote_file demo_client ''/srv/a.txt'' = Inr True"
  proof -
    have "start_sftp_client demo_client = Inr demo_sftp
          \<and> exists demo_sftp ''/srv/a.txt'' = Inr True"
      using s e2 by simp
    from upload_and_check_report_false
      [where client = demo_client and remote_file_path = "''/srv/a.txt''"
         and e = "Exn SFTP_Error ''No such file'' None" and local_file_path = "''a.txt''"
         and remote_folder = "''/etc''" and new_filename = "''a.txt''",
       THEN conjunct2, THEN conjunct2, THEN conjunct1, rule_format, OF this]
    show ?thesis .
  qed
  ultimately show ?thesis by simp
qed

text \<open>
  C8 as it was stated has no failure of an upload or of an existence check raised. On a
  closed connection no SFTP session can be opened, and the \<open>ChannelOpenError\<close> that
  asyncssh raises, which is no \<open>SFTPError\<close>, leaves both functions as it is.
\<close>

theorem upload_and_check_raise_counterexample:
  "check_remote_file demo_closed_client ''/srv/a.txt''
     = Inl (Exn SSH_Error ''SSH connection closed'' None)
   \<and> upload_file demo_closed_client ''a.txt'' ''/srv'' ''a.txt''
     = Inl (Exn SSH_Error ''SSH connection closed'' None)"
  by (simp add: check_remote_file_def check_remote_file_try_def upload_file_def
      upload_file_try_def demo_closed_client_def is_FileNotFoundError_def is_SFTPError_def)



text \<open>
  C10. \<open>upload_file\<close> transfers to the remote path \<open>remote_folder + "/" + new_filename\<close>
  and to no other: it returns true exactly when \<open>put\<close> to that path succeeds, and its result
  is the same for any two SFTP clients whose \<open>put\<close> agrees on that path. The path is not
  normalised: a \<open>remote_folder\<close> that ends in \<open>/\<close> gives a path with \<open>//\<close> before the
  file name.
\<close>

theorem upload_file_remote_path:
  assumes "start_sftp_client client = Inr sftp"
  shows "(upload_file client local_file_path remote_folder new_filename = Inr True
            \<longleftrightarrow> put sftp local_file_path (remote_folder @ ''/'' @ new_filename) = None)
         \<and> (\<forall>sftp'. put sftp' local_file_path (remote_folder @ ''/'' @ new_filename)
                      = put sftp local_file_path (remote_folder @ ''/'' @ new_filename) \<longrightarrow>
                upload_file (client\<lparr>start_sftp_client := Inr sftp'\<rparr>)
                            local_file_path remote_folder new_filename
                  = upload_file client local_file_path remote_folder new_filename)
         \<and> (\<forall>parent. remote_folder = parent @ ''/'' \<longrightarrow>
                (upload_file client local_file_path remote_folder new_filename = Inr True
                   \<longleftrightarrow> put sftp local_file_path (parent @ ''//'' @ new_filename) = None))"
  using assms
  by (auto simp: upload_file_def upload_file_try_def Let_def split: option.splits)

theorem upload_file_remote_path_witness:
  "upload_file demo_client ''a.txt'' ''/srv/'' ''a.txt'' = Inr True
   \<and> upload_file demo_client ''a.txt'' ''/srv'' ''a.txt'' = Inr False"
  using upload_file_remote_path
    [where client = demo_client and sftp = demo_sftp and local_file_path = "''a.txt''"
       and remote_folder = "''/srv/''" and new_filename = "''a.txt''"]
    upload_file_remote_path
    [where client = demo_client and sftp = demo_sftp and local_file_path = "''a.txt''"
       and remote_folder = "''/srv''" and new_filename = "''a.txt''"]
  by (simp add: demo_client_def demo_sftp_def upload_file_def upload_file_try_def
      is_FileNotFoundError_def is_SFTPError_def)

end
